theory Spec2Isabelle
  imports Complex_Main
begin

section \<open>Data model (models/medicine.py)\<close>

text \<open>
  The engine reads five tables. Each row class becomes a record holding the columns the
  engine reads; a nullable column is an \<open>option\<close>. Strings are lists of
  characters and the model follows the program on ASCII text. Scores are Python floats in
  the source and are modelled as real numbers. A table is the list of its rows in the
  order a scan returns them, which is the order \<open>.all()\<close> and \<open>.first()\<close> follow.
\<close>

record medicine =
  m_id :: int
  brand_name :: "string option"
  generic_name :: string
  pregnancy_category :: "string option"
  pediatric_use :: "string option"
  geriatric_use :: "string option"

record symptom =
  s_id :: int
  s_name :: string

record patient_condition =
  c_id :: int
  c_name :: string

record medicine_symptom =
  ms_medicine_id :: int
  ms_symptom_id :: int
  effectiveness_score :: real
  contraindicated :: bool

record medicine_contraindication =
  mc_medicine_id :: int
  mc_condition_id :: int
  mc_severity :: string
  mc_notes :: "string option"

record database =
  medicines :: "medicine list"
  symptoms :: "symptom list"
  patient_conditions :: "patient_condition list"
  medicine_symptoms :: "medicine_symptom list"
  medicine_contraindications :: "medicine_contraindication list"

datatype error = NameError string

section \<open>String operations\<close>

text \<open>ASCII case folding, as \<open>str.lower()\<close> and SQL \<open>lower()\<close> do on ASCII text.\<close>

definition lower_char :: "char \<Rightarrow> char" where
  "lower_char c =
     (let n = (of_char c :: nat) in if 65 \<le> n \<and> n \<le> 90 then char_of (n + 32) else c)"

definition lower :: "string \<Rightarrow> string" where
  "lower s = map lower_char s"

definition starts_with :: "string \<Rightarrow> string \<Rightarrow> bool" where
  "starts_with s p = (take (length p) s = p)"

text \<open>Python's \<open>sub in text\<close> on strings: \<open>sub\<close> occurs somewhere in \<open>text\<close>.\<close>

fun str_contains :: "string \<Rightarrow> string \<Rightarrow> bool" where
  "str_contains sub [] = (sub = [])"
| "str_contains sub (c # cs) = (starts_with (c # cs) sub \<or> str_contains sub cs)"

text \<open>
  The SQL \<open>LIKE\<close> operator: in the pattern \<open>%\<close> stands for any run of characters
  and \<open>_\<close> for any one character. The queries pass no escape character.
\<close>

fun like_match :: "string \<Rightarrow> string \<Rightarrow> bool" where
  "like_match [] t = (t = [])"
| "like_match (p # ps) [] = (p = CHR ''%'' \<and> like_match ps [])"
| "like_match (p # ps) (c # cs) =
     (if p = CHR ''%'' then like_match ps (c # cs) \<or> like_match (p # ps) cs
      else (p = CHR ''_'' \<or> p = c) \<and> like_match ps cs)"

text \<open>\<open>column.ilike(pattern)\<close> is \<open>lower(column) LIKE lower(pattern)\<close>.\<close>

definition ilike :: "string \<Rightarrow> string \<Rightarrow> bool" where
  "ilike column pattern = like_match (lower pattern) (lower column)"

text \<open>The pattern of the f-string \<open>f"%{name}%"\<close>.\<close>

definition name_pattern :: "string \<Rightarrow> string" where
  "name_pattern name = ''%'' @ name @ ''%''"

section \<open>Knowledge store accessor (services/medicine_service.py)\<close>

definition search_medicines_by_symptoms :: "database \<Rightarrow> string list \<Rightarrow> medicine list" where
  "search_medicines_by_symptoms db symptom_names =
     (if symptom_names = [] then []
      else
        let symptom_objects = filter (\<lambda>s. s_name s \<in> set symptom_names) (symptoms db) in
        if symptom_objects = [] then []
        else
          let symptom_ids = map s_id symptom_objects;
              edges = filter (\<lambda>ms. ms_symptom_id ms \<in> set symptom_ids
                                    \<and> contraindicated ms = False) (medicine_symptoms db);
              medicine_ids = map ms_medicine_id edges
          in if medicine_ids = [] then []
             else filter (\<lambda>m. m_id m \<in> set medicine_ids) (medicines db))"

definition get_medicine_effectiveness :: "database \<Rightarrow> int \<Rightarrow> int \<Rightarrow> real" where
  "get_medicine_effectiveness db medicine_id symptom_id =
     (case find (\<lambda>ms. ms_medicine_id ms = medicine_id \<and> ms_symptom_id ms = symptom_id)
                (medicine_symptoms db) of
        Some relationship \<Rightarrow> effectiveness_score relationship
      | None \<Rightarrow> 0)"

definition is_medicine_contraindicated :: "database \<Rightarrow> int \<Rightarrow> int \<Rightarrow> bool" where
  "is_medicine_contraindicated db medicine_id condition_id =
     (find (\<lambda>mc. mc_medicine_id mc = medicine_id \<and> mc_condition_id mc = condition_id)
           (medicine_contraindications db) \<noteq> None)"

section \<open>Symptom checker (services/symptom_checker.py)\<close>

text \<open>
  The names bound in the module's global namespace: those of its import statements
  (lines 5 to 10) and the class it defines. A global name that is not bound there, and
  is no builtin, raises \<open>NameError\<close> when the line that mentions it runs.
\<close>

definition symptom_checker_globals :: "string list" where
  "symptom_checker_globals =
     [''MedicineService'', ''sessionmaker'', ''create_engine'', ''Symptom'',
      ''PatientCondition'', ''MedicineSymptom'', ''MedicineContraindication'',
      ''re'', ''json'', ''SymptomChecker'']"

text \<open>\<open>query(Symptom).filter(Symptom.name.ilike(f"%{name}%")).first()\<close>\<close>

definition resolve_symptom :: "database \<Rightarrow> string \<Rightarrow> symptom option" where
  "resolve_symptom db symptom_name =
     find (\<lambda>s. ilike (s_name s) (name_pattern symptom_name)) (symptoms db)"

definition resolve_condition :: "database \<Rightarrow> string \<Rightarrow> patient_condition option" where
  "resolve_condition db condition_name =
     find (\<lambda>c. ilike (c_name c) (name_pattern condition_name)) (patient_conditions db)"

text \<open>\<open>not medicine.pediatric_use\<close>: the column is null or the empty string.\<close>

definition not_text :: "string option \<Rightarrow> bool" where
  "not_text t = (t = None \<or> t = Some [])"

subsection \<open>Effectiveness scorer\<close>

text \<open>The \<open>for\<close> loop of \<open>_get_effectiveness_for_symptoms\<close> with its two accumulators.\<close>

fun effectiveness_loop ::
  "database \<Rightarrow> medicine \<Rightarrow> string list \<Rightarrow> real \<Rightarrow> nat \<Rightarrow> real \<times> nat" where
  "effectiveness_loop db m [] total_score symptom_count = (total_score, symptom_count)"
| "effectiveness_loop db m (symptom_name # rest) total_score symptom_count =
     (case resolve_symptom db symptom_name of
        Some s \<Rightarrow>
          effectiveness_loop db m rest
            (total_score + get_medicine_effectiveness db (m_id m) (s_id s))
            (symptom_count + 1)
      | None \<Rightarrow> effectiveness_loop db m rest total_score symptom_count)"

definition get_effectiveness_for_symptoms :: "database \<Rightarrow> medicine \<Rightarrow> string list \<Rightarrow> real" where
  "get_effectiveness_for_symptoms db m symptom_names =
     (if symptom_names = [] then 0
      else
        case effectiveness_loop db m symptom_names 0 0 of
          (total_score, symptom_count) \<Rightarrow>
            if symptom_count > 0 then total_score / real symptom_count else 0)"

subsection \<open>Safety scorer\<close>

text \<open>
  The loop over the condition names in \<open>_calculate_safety_score\<close>. The query for the
  contraindication row mentions the global name \<open>and_\<close>, which is looked up when the
  line runs, after \<open>is_medicine_contraindicated\<close> has answered true.
\<close>

fun contraindication_penalties ::
  "database \<Rightarrow> medicine \<Rightarrow> string list \<Rightarrow> real \<Rightarrow> error + real" where
  "contraindication_penalties db m [] safety_score = Inr safety_score"
| "contraindication_penalties db m (condition_name # rest) safety_score =
     (case resolve_condition db condition_name of
        None \<Rightarrow> contraindication_penalties db m rest safety_score
      | Some condition \<Rightarrow>
          if is_medicine_contraindicated db (m_id m) (c_id condition) then
            if ''and_'' \<in> set symptom_checker_globals then
              (case find (\<lambda>mc. mc_medicine_id mc = m_id m \<and> mc_condition_id mc = c_id condition)
                         (medicine_contraindications db) of
                 None \<Rightarrow> contraindication_penalties db m rest safety_score
               | Some contraindication \<Rightarrow>
                   if mc_severity contraindication = ''severe''
                     then contraindication_penalties db m rest (safety_score - 1.0)
                   else if mc_severity contraindication = ''moderate''
                     then contraindication_penalties db m rest (safety_score - 0.5)
                   else if mc_severity contraindication = ''mild''
                     then contraindication_penalties db m rest (safety_score - 0.2)
                   else contraindication_penalties db m rest safety_score)
            else Inl (NameError ''and_'')
          else contraindication_penalties db m rest safety_score)"

text \<open>
  The age block. \<open>if age:\<close> is false for \<open>None\<close> and for \<open>0\<close>; the \<open>elif\<close> runs
  only when the age is not below 12.
\<close>

definition age_adjustment :: "medicine \<Rightarrow> int option \<Rightarrow> real \<Rightarrow> real" where
  "age_adjustment m age safety_score =
     (case age of
        None \<Rightarrow> safety_score
      | Some a \<Rightarrow>
          if a = 0 then safety_score
          else if a < 12 then
            (if not_text (pediatric_use m) then safety_score - 0.3 else safety_score)
          else if a > 65 then
            (if not_text (geriatric_use m) then safety_score - 0.2 else safety_score)
          else safety_score)"

definition pregnancy_adjustment :: "medicine \<Rightarrow> real \<Rightarrow> real" where
  "pregnancy_adjustment m safety_score =
     (if pregnancy_category m = Some ''X'' then safety_score - 0.8
      else if pregnancy_category m = Some ''D'' then safety_score - 0.5
      else if pregnancy_category m = Some ''C'' then safety_score - 0.2
      else safety_score)"

text \<open>\<open>if conditions:\<close> is false for \<open>None\<close> and for the empty list.\<close>

definition calculate_safety_score ::
  "database \<Rightarrow> medicine \<Rightarrow> string list option \<Rightarrow> int option \<Rightarrow> error + real" where
  "calculate_safety_score db m conditions age =
     (case (case conditions of
              None \<Rightarrow> Inr 1.0
            | Some cs \<Rightarrow>
                if cs = [] then Inr 1.0 else contraindication_penalties db m cs 1.0) of
        Inl e \<Rightarrow> Inl e
      | Inr safety_score \<Rightarrow>
          Inr (max 0 (pregnancy_adjustment m (age_adjustment m age safety_score))))"

subsection \<open>Warnings\<close>

definition pregnancy_warnings :: "medicine \<Rightarrow> string list" where
  "pregnancy_warnings m =
     (if pregnancy_category m = Some ''X''
        then [''DO NOT USE during pregnancy - may cause birth defects'']
      else if pregnancy_category m = Some ''D''
        then [''Avoid during pregnancy - may cause harm to fetus'']
      else if pregnancy_category m = Some ''C''
        then [''Use with caution during pregnancy - consult doctor'']
      else [])"

definition age_warnings :: "medicine \<Rightarrow> int option \<Rightarrow> string list" where
  "age_warnings m age =
     (case age of
        None \<Rightarrow> []
      | Some a \<Rightarrow>
          if a \<noteq> 0 \<and> a < 12 then
            (if not_text (pediatric_use m) then [''Not recommended for children under 12'']
             else [])
          else if a \<noteq> 0 \<and> a > 65 then
            (if not_text (geriatric_use m) then [''Use with caution in elderly patients'']
             else [])
          else [])"

fun condition_warnings ::
  "database \<Rightarrow> medicine \<Rightarrow> string list \<Rightarrow> string list \<Rightarrow> error + string list" where
  "condition_warnings db m [] warnings = Inr warnings"
| "condition_warnings db m (condition_name # rest) warnings =
     (case resolve_condition db condition_name of
        None \<Rightarrow> condition_warnings db m rest warnings
      | Some condition \<Rightarrow>
          if is_medicine_contraindicated db (m_id m) (c_id condition) then
            if ''and_'' \<in> set symptom_checker_globals then
              (case find (\<lambda>mc. mc_medicine_id mc = m_id m \<and> mc_condition_id mc = c_id condition)
                         (medicine_contraindications db) of
                 None \<Rightarrow> condition_warnings db m rest warnings
               | Some contraindication \<Rightarrow>
                   condition_warnings db m rest
                     (warnings @
                        [''Contraindicated for '' @ c_name condition @ '': '' @
                           (case mc_notes contraindication of
                              None \<Rightarrow> ''None'' | Some n \<Rightarrow> n)]))
            else Inl (NameError ''and_'')
          else condition_warnings db m rest warnings)"

definition get_safety_warnings ::
  "database \<Rightarrow> medicine \<Rightarrow> string list option \<Rightarrow> int option \<Rightarrow> error + string list" where
  "get_safety_warnings db m conditions age =
     (let warnings = pregnancy_warnings m @ age_warnings m age in
      case conditions of
        None \<Rightarrow> Inr warnings
      | Some cs \<Rightarrow>
          if cs = [] then Inr warnings else condition_warnings db m cs warnings)"

subsection \<open>Recommendation ranker\<close>

definition calculate_medicine_score ::
  "database \<Rightarrow> medicine \<Rightarrow> string list \<Rightarrow> string list option \<Rightarrow> int option
     \<Rightarrow> string option \<Rightarrow> string \<Rightarrow> error + real" where
  "calculate_medicine_score db m symptom_names conditions age gender severity =
     (let effectiveness = get_effectiveness_for_symptoms db m symptom_names in
      case calculate_safety_score db m conditions age of
        Inl e \<Rightarrow> Inl e
      | Inr safety_score \<Rightarrow>
          let score = 0.0 + effectiveness * 0.6 + safety_score * 0.4;
              adjusted = (if severity = ''mild'' then score * 0.8
                          else if severity = ''severe'' then score * 1.2
                          else score)
          in Inr (max 0 adjusted))"

record recommendation =
  r_medicine :: medicine
  r_score :: real
  r_effectiveness :: real
  r_safety_warnings :: "string list"

text \<open>The \<open>for medicine in medicines\<close> loop; an exception leaves the loop and the call.\<close>

fun score_medicines ::
  "database \<Rightarrow> string list \<Rightarrow> string list option \<Rightarrow> int option \<Rightarrow> string option \<Rightarrow> string
     \<Rightarrow> medicine list \<Rightarrow> error + recommendation list" where
  "score_medicines db symptom_names conditions age gender severity [] = Inr []"
| "score_medicines db symptom_names conditions age gender severity (m # rest) =
     (case calculate_medicine_score db m symptom_names conditions age gender severity of
        Inl e \<Rightarrow> Inl e
      | Inr sc \<Rightarrow>
          if sc > 0 then
            (case get_safety_warnings db m conditions age of
               Inl e \<Rightarrow> Inl e
             | Inr ws \<Rightarrow>
                 (case score_medicines db symptom_names conditions age gender severity rest of
                    Inl e \<Rightarrow> Inl e
                  | Inr scored \<Rightarrow>
                      Inr (\<lparr>r_medicine = m, r_score = sc,
                            r_effectiveness = get_effectiveness_for_symptoms db m symptom_names,
                            r_safety_warnings = ws\<rparr> # scored)))
          else score_medicines db symptom_names conditions age gender severity rest)"

text \<open>
  \<open>list.sort(key, reverse=True)\<close> is stable: entries of equal score keep their order.
  The stable insertion sort on the negated score orders the list the same way.
\<close>

definition get_recommendations ::
  "database \<Rightarrow> string list \<Rightarrow> string list option \<Rightarrow> int option \<Rightarrow> string option \<Rightarrow> string
     \<Rightarrow> error + recommendation list" where
  "get_recommendations db symptom_names conditions age gender severity =
     (if symptom_names = [] then Inr []
      else
        let meds = search_medicines_by_symptoms db symptom_names in
        if meds = [] then Inr []
        else
          case score_medicines db symptom_names conditions age gender severity meds of
            Inl e \<Rightarrow> Inl e
          | Inr scored_medicines \<Rightarrow>
              Inr (take 10 (sort_key (\<lambda>x. - r_score x) scored_medicines)))"

subsection \<open>Text understanding: patient information\<close>

text \<open>
  The pattern \<open>(\d+)\s*(?:years?|yrs?|old)\<close>, searched from left to right with the
  backtracking of \<open>re.search\<close>. On ASCII text \<open>\d\<close> is a decimal digit and \<open>\s\<close> is
  one of the characters 9 to 13, 28 to 31 and the space.
\<close>

definition is_digit :: "char \<Rightarrow> bool" where
  "is_digit c = (let n = (of_char c :: nat) in 48 \<le> n \<and> n \<le> 57)"

definition is_space :: "char \<Rightarrow> bool" where
  "is_space c = (let n = (of_char c :: nat) in (9 \<le> n \<and> n \<le> 13) \<or> (28 \<le> n \<and> n \<le> 32))"

definition units_here :: "string \<Rightarrow> bool" where
  "units_here s = (starts_with s ''year'' \<or> starts_with s ''yr'' \<or> starts_with s ''old'')"

fun spaces_then_units :: "string \<Rightarrow> bool" where
  "spaces_then_units [] = False"
| "spaces_then_units (c # cs) = ((is_space c \<and> spaces_then_units cs) \<or> units_here (c # cs))"

text \<open>
  The group \<open>(\d+)\<close> is greedy: it first takes one more digit, and gives it back when the
  rest of the pattern does not match after it. \<open>acc\<close> holds the digits taken so far.
\<close>

fun digits_then_units :: "string \<Rightarrow> string \<Rightarrow> string option" where
  "digits_then_units acc [] = None"
| "digits_then_units acc (c # cs) =
     (case (if is_digit c then digits_then_units (acc @ [c]) cs else None) of
        Some g \<Rightarrow> Some g
      | None \<Rightarrow> if acc \<noteq> [] \<and> spaces_then_units (c # cs) then Some acc else None)"

fun search_age :: "string \<Rightarrow> string option" where
  "search_age [] = None"
| "search_age (c # cs) =
     (case digits_then_units [] (c # cs) of
        Some g \<Rightarrow> Some g
      | None \<Rightarrow> search_age cs)"

definition int_of_digits :: "string \<Rightarrow> int" where
  "int_of_digits g = foldl (\<lambda>n c. 10 * n + (int (of_char c) - 48)) 0 g"

text \<open>The dictionary \<open>info\<close>: a key that is not set is \<open>None\<close>.\<close>

record patient_info =
  pi_age :: "int option"
  pi_gender :: "string option"
  pi_conditions :: "string list option"

definition extract_gender :: "string \<Rightarrow> string option" where
  "extract_gender txt =
     (if list_ex (\<lambda>word. str_contains word (lower txt))
           [''male'', ''man'', ''boy'', ''he'', ''him'']
        then Some ''male''
      else if list_ex (\<lambda>word. str_contains word (lower txt))
           [''female'', ''woman'', ''girl'', ''she'', ''her'']
        then Some ''female''
      else None)"

definition extract_patient_info :: "database \<Rightarrow> string \<Rightarrow> patient_info" where
  "extract_patient_info db txt =
     (let conditions =
            map c_name
              (filter (\<lambda>c. str_contains (lower (c_name c)) (lower txt)) (patient_conditions db))
      in \<lparr>pi_age = map_option int_of_digits (search_age (lower txt)),
          pi_gender = extract_gender txt,
          pi_conditions = (if conditions = [] then None else Some conditions)\<rparr>)"

section \<open>The specification's wording, for comparison\<close>

text \<open>
  The specification describes name resolution as case-insensitive substring containment
  on the stored name. The definitions of this section follow that wording; the theorems
  compare them with the functions above.
\<close>

definition name_matches :: "string \<Rightarrow> string \<Rightarrow> bool" where
  "name_matches term stored = str_contains (lower term) (lower stored)"

definition resolve_by_substring :: "database \<Rightarrow> string \<Rightarrow> symptom option" where
  "resolve_by_substring db symptom_name =
     find (\<lambda>s. name_matches symptom_name (s_name s)) (symptoms db)"

text \<open>
  The mean of the edge scores over the names that a resolver finds; 0 when it finds none.
\<close>

definition mean_effectiveness ::
  "(string \<Rightarrow> symptom option) \<Rightarrow> database \<Rightarrow> medicine \<Rightarrow> string list \<Rightarrow> real" where
  "mean_effectiveness resolve db m symptom_names =
     (let resolved = List.map_filter resolve symptom_names in
      if resolved = [] then 0
      else sum_list (map (\<lambda>s. get_medicine_effectiveness db (m_id m) (s_id s)) resolved)
             / real (length resolved))"

definition effectiveness_spec :: "database \<Rightarrow> medicine \<Rightarrow> string list \<Rightarrow> real" where
  "effectiveness_spec db m symptom_names =
     mean_effectiveness (resolve_by_substring db) db m symptom_names"

definition has_wildcard :: "string \<Rightarrow> bool" where
  "has_wildcard name = (CHR ''%'' \<in> set name \<or> CHR ''_'' \<in> set name)"

text \<open>
  The candidate set in the specification's words: the medicines with a non-contraindicated
  edge to a stored symptom whose name matches one of the requested terms.
\<close>

definition candidates_spec :: "database \<Rightarrow> string list \<Rightarrow> medicine list" where
  "candidates_spec db symptom_names =
     filter (\<lambda>m. list_ex (\<lambda>ms. ms_medicine_id ms = m_id m \<and> \<not> contraindicated ms
                     \<and> list_ex (\<lambda>s. s_id s = ms_symptom_id ms
                                   \<and> list_ex (\<lambda>n. name_matches n (s_name s)) symptom_names)
                          (symptoms db))
                  (medicine_symptoms db))
            (medicines db)"

definition scores_in_unit_interval :: "database \<Rightarrow> bool" where
  "scores_in_unit_interval db =
     list_all (\<lambda>ms. 0 \<le> effectiveness_score ms \<and> effectiveness_score ms \<le> 1)
       (medicine_symptoms db)"

section \<open>Test data\<close>

text \<open>
  The rows that \<open>_create_test_data\<close> of \<open>test_symptom_checker.py\<close> stores, with the
  identifiers the database assigns in insertion order.
\<close>

definition medicine1 :: medicine where
  "medicine1 = \<lparr>m_id = 1, brand_name = Some ''Test Medicine 1'',
                 generic_name = ''Test Generic 1'', pregnancy_category = None,
                 pediatric_use = None, geriatric_use = None\<rparr>"

definition medicine2 :: medicine where
  "medicine2 = \<lparr>m_id = 2, brand_name = Some ''Test Medicine 2'',
                 generic_name = ''Test Generic 2'', pregnancy_category = None,
                 pediatric_use = None, geriatric_use = None\<rparr>"

definition test_db :: database where
  "test_db =
     \<lparr>medicines = [medicine1, medicine2],
      symptoms = [\<lparr>s_id = 1, s_name = ''Fever''\<rparr>, \<lparr>s_id = 2, s_name = ''Headache''\<rparr>],
      patient_conditions =
        [\<lparr>c_id = 1, c_name = ''Diabetes''\<rparr>, \<lparr>c_id = 2, c_name = ''Hypertension''\<rparr>],
      medicine_symptoms =
        [\<lparr>ms_medicine_id = 1, ms_symptom_id = 1, effectiveness_score = 0.8,
          contraindicated = False\<rparr>,
         \<lparr>ms_medicine_id = 2, ms_symptom_id = 2, effectiveness_score = 0.7,
          contraindicated = False\<rparr>],
      medicine_contraindications = []\<rparr>"

text \<open>
  The same rows with a third condition and one contraindication edge: the first medicine
  is severely contraindicated in pregnancy.
\<close>

definition contraindicated_db :: database where
  "contraindicated_db =
     test_db\<lparr>patient_conditions :=
                 patient_conditions test_db @ [\<lparr>c_id = 3, c_name = ''Pregnancy''\<rparr>],
               medicine_contraindications :=
                 [\<lparr>mc_medicine_id = 1, mc_condition_id = 3, mc_severity = ''severe'',
                   mc_notes = Some ''Not for use in pregnancy''\<rparr>]\<rparr>"

section \<open>Properties of the scorers\<close>

subsection \<open>Safety and effectiveness: auxiliary facts\<close>

lemma and_unbound: "''and_'' \<notin> set symptom_checker_globals"
  by (simp add: symptom_checker_globals_def)

lemma contraindication_penalties_le:
  "contraindication_penalties db m cs s0 = Inr s \<Longrightarrow> s \<le> s0"
proof (induction cs arbitrary: s0)
  case Nil
  then show ?case by simp
next
  case (Cons c cs)
  then show ?case
    by (auto simp: and_unbound split: option.splits if_splits)
qed

lemma age_adjustment_le: "age_adjustment m a s \<le> s"
  by (simp add: age_adjustment_def split: option.splits)

lemma pregnancy_adjustment_le: "pregnancy_adjustment m s \<le> s"
  by (simp add: pregnancy_adjustment_def)

lemma calculate_safety_score_range:
  assumes "calculate_safety_score db m conditions age = Inr s"
  shows "0 \<le> s \<and> s \<le> 1"
proof -
  define start where
    "start = (case conditions of
                None \<Rightarrow> Inr 1.0
              | Some cs \<Rightarrow> if cs = [] then Inr 1.0 else contraindication_penalties db m cs 1.0)"
  from assms obtain s0 where st: "start = Inr s0"
    and s: "s = max 0 (pregnancy_adjustment m (age_adjustment m age s0))"
    by (auto simp: calculate_safety_score_def start_def split: sum.splits)
  have s0: "s0 \<le> 1"
  proof (cases conditions)
    case None
    with st show ?thesis by (simp add: start_def)
  next
    case (Some cs)
    show ?thesis
    proof (cases "cs = []")
      case True
      with Some st show ?thesis by (simp add: start_def)
    next
      case False
      with Some st have "contraindication_penalties db m cs 1 = Inr s0"
        by (simp add: start_def)
      then show ?thesis by (rule contraindication_penalties_le)
    qed
  qed
  have "pregnancy_adjustment m (age_adjustment m age s0) \<le> s0"
    using pregnancy_adjustment_le [of m "age_adjustment m age s0"] age_adjustment_le [of m age s0]
    by linarith
  with s0 s show ?thesis by simp
qed

lemma safety_score_perfect:
  assumes "pregnancy_category m = None \<or> pregnancy_category m = Some ''A''
           \<or> pregnancy_category m = Some ''B''"
  shows "calculate_safety_score db m None None = Inr 1"
    and "calculate_safety_score db m (Some []) None = Inr 1"
  using assms
  by (auto simp: calculate_safety_score_def pregnancy_adjustment_def age_adjustment_def)

lemma age_adjustment_pediatric:
  "a < 12 \<Longrightarrow> a \<noteq> 0 \<Longrightarrow> not_text (pediatric_use m)
     \<Longrightarrow> age_adjustment m (Some a) s = s - 0.3"
  by (simp add: age_adjustment_def)

lemma age_adjustment_geriatric:
  "65 < a \<Longrightarrow> not_text (geriatric_use m) \<Longrightarrow> age_adjustment m (Some a) s = s - 0.2"
  by (simp add: age_adjustment_def)

lemma age_adjustment_zero: "age_adjustment m (Some 0) s = age_adjustment m None s"
  by (simp add: age_adjustment_def)

lemma extract_patient_info_example:
  "extract_patient_info test_db ''I am a 25 year old male with diabetes'' =
     \<lparr>pi_age = Some 25, pi_gender = Some ''male'', pi_conditions = Some [''Diabetes'']\<rparr>"
  by code_simp

lemma effectiveness_loop_eq:
  "effectiveness_loop db m names t n =
     (t + sum_list (map (\<lambda>s. get_medicine_effectiveness db (m_id m) (s_id s))
                        (List.map_filter (resolve_symptom db) names)),
      n + length (List.map_filter (resolve_symptom db) names))"
  by (induction names arbitrary: t n) (simp_all add: map_filter_simps split: option.splits)

lemma get_effectiveness_mean:
  "get_effectiveness_for_symptoms db m names = mean_effectiveness (resolve_symptom db) db m names"
  by (simp add: get_effectiveness_for_symptoms_def mean_effectiveness_def effectiveness_loop_eq
        map_filter_simps Let_def)

lemma get_medicine_effectiveness_range:
  assumes "scores_in_unit_interval db"
  shows "0 \<le> get_medicine_effectiveness db i j \<and> get_medicine_effectiveness db i j \<le> 1"
proof (cases "find (\<lambda>ms. ms_medicine_id ms = i \<and> ms_symptom_id ms = j) (medicine_symptoms db)")
  case None
  then show ?thesis by (simp add: get_medicine_effectiveness_def)
next
  case (Some e)
  then have "e \<in> set (medicine_symptoms db)"
    by (auto simp: find_Some_iff)
  with assms have "0 \<le> effectiveness_score e \<and> effectiveness_score e \<le> 1"
    by (simp add: scores_in_unit_interval_def list_all_iff)
  with Some show ?thesis by (simp add: get_medicine_effectiveness_def)
qed

lemma sum_list_unit_bounds:
  fixes xs :: "real list"
  assumes "\<And>x. x \<in> set xs \<Longrightarrow> 0 \<le> x \<and> x \<le> 1"
  shows "0 \<le> sum_list xs \<and> sum_list xs \<le> real (length xs)"
  using assms by (induction xs) (simp, fastforce)

lemma mean_effectiveness_range:
  assumes "scores_in_unit_interval db"
  shows "0 \<le> mean_effectiveness resolve db m names \<and> mean_effectiveness resolve db m names \<le> 1"
proof -
  let ?rs = "List.map_filter resolve names"
  let ?xs = "map (\<lambda>s. get_medicine_effectiveness db (m_id m) (s_id s)) ?rs"
  have b: "0 \<le> sum_list ?xs \<and> sum_list ?xs \<le> real (length ?xs)"
    by (rule sum_list_unit_bounds) (use get_medicine_effectiveness_range [OF assms] in auto)
  show ?thesis
  proof (cases "?rs = []")
    case True
    then show ?thesis by (simp add: mean_effectiveness_def)
  next
    case False
    then have "0 < real (length ?rs)" by simp
    with b False show ?thesis
      by (simp add: mean_effectiveness_def Let_def divide_le_eq)
  qed
qed

subsection \<open>The ranker\<close>

lemma calculate_medicine_score_gender:
  "calculate_medicine_score db m names conditions age g1 severity =
   calculate_medicine_score db m names conditions age g2 severity"
  by (simp add: calculate_medicine_score_def)

lemma score_medicines_gender:
  "score_medicines db names conditions age g1 severity meds =
   score_medicines db names conditions age g2 severity meds"
proof (induction meds)
  case Nil
  show ?case by simp
next
  case (Cons m meds)
  have "calculate_medicine_score db m names conditions age g1 severity =
        calculate_medicine_score db m names conditions age g2 severity"
    by (rule calculate_medicine_score_gender)
  with Cons.IH show ?case
    by (simp split: sum.splits)
qed

text \<open>
  Claim C9. The gender passed to the recommendation engine has no effect on its result:
  two calls that differ only in the gender return the same value, whether a list or an
  exception.
\<close>

theorem gender_has_no_effect:
  "get_recommendations db names conditions age g1 severity =
   get_recommendations db names conditions age g2 severity"
proof -
  have "score_medicines db names conditions age g1 severity (search_medicines_by_symptoms db names) =
        score_medicines db names conditions age g2 severity (search_medicines_by_symptoms db names)"
    by (rule score_medicines_gender)
  then show ?thesis
    by (simp add: get_recommendations_def Let_def)
qed

text \<open>
  Claim C8. For one medicine and the same symptoms, conditions, age and gender, the total
  score under severity "severe" is at least the score under "moderate", which is at least
  the score under "mild".
\<close>

theorem severity_multiplier_law:
  assumes "calculate_medicine_score db m names conditions age gender ''mild'' = Inr x"
    and "calculate_medicine_score db m names conditions age gender ''moderate'' = Inr y"
    and "calculate_medicine_score db m names conditions age gender ''severe'' = Inr z"
  shows "x \<le> y \<and> y \<le> z"
proof -
  obtain s where s: "calculate_safety_score db m conditions age = Inr s"
    using assms(1) by (auto simp: calculate_medicine_score_def split: sum.splits)
  define t where "t = get_effectiveness_for_symptoms db m names * 0.6 + s * 0.4"
  have "x = max 0 (t * 0.8)" "y = max 0 t" "z = max 0 (t * 1.2)"
    using assms s by (simp_all add: calculate_medicine_score_def t_def)
  then show ?thesis by (cases "0 \<le> t") (auto simp: max_def not_le mult_less_0_iff)
qed

theorem severity_multiplier_law_witness:
  "calculate_medicine_score test_db medicine1 [''Fever''] (Some []) (Some 30) (Some ''male'') ''mild'' = Inr (88/125)
   \<and> calculate_medicine_score test_db medicine1 [''Fever''] (Some []) (Some 30) (Some ''male'') ''moderate'' = Inr (22/25)
   \<and> calculate_medicine_score test_db medicine1 [''Fever''] (Some []) (Some 30) (Some ''male'') ''severe'' = Inr (132/125)
   \<and> (88/125 :: real) \<le> 22/25 \<and> (22/25 :: real) \<le> 132/125"
proof -
  have a: "calculate_medicine_score test_db medicine1 [''Fever''] (Some []) (Some 30) (Some ''male'') ''mild'' = Inr (88/125)"
    by code_simp
  have b: "calculate_medicine_score test_db medicine1 [''Fever''] (Some []) (Some 30) (Some ''male'') ''moderate'' = Inr (22/25)"
    by code_simp
  have c: "calculate_medicine_score test_db medicine1 [''Fever''] (Some []) (Some 30) (Some ''male'') ''severe'' = Inr (132/125)"
    by code_simp
  from severity_multiplier_law [OF a b c] a b c show ?thesis by simp
qed

subsection \<open>Ranked output\<close>

lemma score_medicines_positive:
  "score_medicines db names conditions age gender severity meds = Inr rs
     \<Longrightarrow> r \<in> set rs \<Longrightarrow> 0 < r_score r"
proof (induction meds arbitrary: rs)
  case Nil
  then show ?case by simp
next
  case (Cons m meds)
  then show ?case
    by (auto split: sum.splits if_splits)
qed

lemma score_medicines_score:
  "score_medicines db names conditions age gender severity meds = Inr rs \<Longrightarrow> r \<in> set rs
     \<Longrightarrow> \<exists>m. calculate_medicine_score db m names conditions age gender severity = Inr (r_score r)"
proof (induction meds arbitrary: rs)
  case Nil
  then show ?case by simp
next
  case (Cons m meds)
  show ?case
  proof (cases "calculate_medicine_score db m names conditions age gender severity")
    case (Inl e)
    with Cons.prems show ?thesis by simp
  next
    case (Inr sc)
    show ?thesis
    proof (cases "0 < sc")
      case False
      with Inr Cons show ?thesis by simp
    next
      case True
      with Inr Cons.prems obtain ws scored where
        tl: "score_medicines db names conditions age gender severity meds = Inr scored"
        and rs: "rs = \<lparr>r_medicine = m, r_score = sc,
                   r_effectiveness = get_effectiveness_for_symptoms db m names,
                   r_safety_warnings = ws\<rparr> # scored"
        by (auto split: sum.splits)
      from Cons.prems(2) rs consider "r_score r = sc" | "r \<in> set scored" by auto
      then show ?thesis
      proof cases
        case 1
        with Inr show ?thesis by auto
      next
        case 2
        from Cons.IH [OF tl 2] show ?thesis .
      qed
    qed
  qed
qed

lemma get_recommendations_Inr:
  assumes "get_recommendations db names conditions age gender severity = Inr rs"
  shows "rs = [] \<or> (\<exists>scored.
           score_medicines db names conditions age gender severity
             (search_medicines_by_symptoms db names) = Inr scored
           \<and> rs = take 10 (sort_key (\<lambda>x. - r_score x) scored))"
  using assms by (auto simp: get_recommendations_def Let_def split: if_splits sum.splits)

lemma sorted_descending_take:
  "sorted_wrt (\<lambda>a b. r_score b \<le> r_score a) (take n (sort_key (\<lambda>x. - r_score x) xs))"
proof -
  have "sorted (map (\<lambda>x. - r_score x) (sort_key (\<lambda>x. - r_score x) xs))"
    by (rule sorted_sort_key)
  then have "sorted_wrt (\<lambda>a b. r_score b \<le> r_score a) (sort_key (\<lambda>x. - r_score x) xs)"
    by (simp add: sorted_map)
  then show ?thesis by (rule sorted_wrt_take)
qed

text \<open>
  Claim C5. With an empty symptom list the engine returns the empty list, whatever the
  conditions, age, gender and severity. Every list it returns is sorted by descending
  total score, has at most 10 entries, and holds only entries of positive total score.
\<close>

theorem recommendations_sorted_top10_positive:
  "get_recommendations db [] conditions age gender severity = Inr []
   \<and> (get_recommendations db names conditions age gender severity = Inr rs \<longrightarrow>
        sorted_wrt (\<lambda>a b. r_score b \<le> r_score a) rs \<and> length rs \<le> 10
        \<and> (\<forall>r \<in> set rs. 0 < r_score r))"
proof (intro conjI impI)
  show "get_recommendations db [] conditions age gender severity = Inr []"
    by (simp add: get_recommendations_def)
next
  assume h: "get_recommendations db names conditions age gender severity = Inr rs"
  from get_recommendations_Inr [OF h]
  consider "rs = []"
    | scored where "score_medicines db names conditions age gender severity
             (search_medicines_by_symptoms db names) = Inr scored"
        "rs = take 10 (sort_key (\<lambda>x. - r_score x) scored)"
    by blast
  then have "sorted_wrt (\<lambda>a b. r_score b \<le> r_score a) rs \<and> length rs \<le> 10
      \<and> (\<forall>r \<in> set rs. 0 < r_score r)"
  proof cases
    case 1
    then show ?thesis by simp
  next
    case 2
    have "\<forall>r \<in> set rs. 0 < r_score r"
    proof
      fix r assume "r \<in> set rs"
      then have "r \<in> set scored" using 2(2) by (auto dest: in_set_takeD)
      then show "0 < r_score r" using score_medicines_positive [OF 2(1)] by blast
    qed
    then show ?thesis using 2(2) sorted_descending_take by simp
  qed
  then show "sorted_wrt (\<lambda>a b. r_score b \<le> r_score a) rs" "length rs \<le> 10"
    "\<forall>r \<in> set rs. 0 < r_score r" by simp_all
qed

lemma test_db_fever_moderate:
  "get_recommendations test_db [''Fever''] (Some []) (Some 30) (Some ''male'') ''moderate'' =
     Inr [\<lparr>r_medicine = medicine1, r_score = 22/25, r_effectiveness = 4/5,
           r_safety_warnings = []\<rparr>]"
  by code_simp

text \<open>
  The test data at the request of \<open>test_get_recommendations\<close>: the engine returns one
  entry, and the three properties hold of it.
\<close>

theorem recommendations_sorted_top10_positive_witness:
  "get_recommendations test_db [] (Some []) (Some 30) (Some ''male'') ''moderate'' = Inr []
   \<and> get_recommendations test_db [''Fever''] (Some []) (Some 30) (Some ''male'') ''moderate'' =
       Inr [\<lparr>r_medicine = medicine1, r_score = 22/25, r_effectiveness = 4/5,
             r_safety_warnings = []\<rparr>]
   \<and> sorted_wrt (\<lambda>a b. r_score b \<le> r_score a)
        [\<lparr>r_medicine = medicine1, r_score = 22/25, r_effectiveness = 4/5,
          r_safety_warnings = []\<rparr>]
   \<and> length [\<lparr>r_medicine = medicine1, r_score = 22/25, r_effectiveness = 4/5,
          r_safety_warnings = []\<rparr>] \<le> 10
   \<and> 0 < r_score \<lparr>r_medicine = medicine1, r_score = 22/25, r_effectiveness = 4/5,
          r_safety_warnings = []\<rparr>"
  using recommendations_sorted_top10_positive
    [of test_db "Some []" "Some 30" "Some ''male''" "''moderate''" "[''Fever'']"
        "[\<lparr>r_medicine = medicine1, r_score = 22/25, r_effectiveness = 4/5,
           r_safety_warnings = []\<rparr>]"]
    test_db_fever_moderate
  by simp

lemma calculate_medicine_score_le:
  assumes ok: "scores_in_unit_interval db"
    and sc: "calculate_medicine_score db m names conditions age gender severity = Inr x"
  shows "x \<le> 1.2"
proof -
  obtain s where s: "calculate_safety_score db m conditions age = Inr s"
    using sc by (auto simp: calculate_medicine_score_def split: sum.splits)
  define e where "e = get_effectiveness_for_symptoms db m names"
  have e: "0 \<le> e \<and> e \<le> 1"
    unfolding e_def get_effectiveness_mean by (rule mean_effectiveness_range [OF ok])
  have s01: "0 \<le> s \<and> s \<le> 1" by (rule calculate_safety_score_range [OF s])
  define t where "t = e * 0.6 + s * 0.4"
  have t: "0 \<le> t \<and> t \<le> 1" using e s01 by (simp add: t_def)
  have "x = max 0 (if severity = ''mild'' then t * 0.8
                   else if severity = ''severe'' then t * 1.2 else t)"
    using sc s by (auto simp: calculate_medicine_score_def t_def e_def Let_def)
  with t show ?thesis by (auto simp: max_def)
qed

lemma test_db_fever_severe:
  "get_recommendations test_db [''Fever''] (Some []) (Some 30) (Some ''male'') ''severe'' =
     Inr [\<lparr>r_medicine = medicine1, r_score = 132/125, r_effectiveness = 4/5,
           r_safety_warnings = []\<rparr>]"
  by code_simp

lemma test_db_scores_ok: "scores_in_unit_interval test_db"
  by (simp add: scores_in_unit_interval_def test_db_def)

text \<open>
  Claim C10. When every stored effectiveness score lies between 0 and 1, every entry the
  engine returns has a total score of at most 1.2. The bound 1 does not hold: on the test
  data, whose scores lie between 0 and 1, severity "severe" gives an entry above 1.
\<close>

theorem total_score_at_most_six_fifths:
  "(scores_in_unit_interval db \<longrightarrow>
      get_recommendations db names conditions age gender severity = Inr rs \<longrightarrow>
      (\<forall>r \<in> set rs. r_score r \<le> 1.2))
   \<and> scores_in_unit_interval test_db
   \<and> (\<exists>rs'. get_recommendations test_db [''Fever''] (Some []) (Some 30) (Some ''male'')
              ''severe'' = Inr rs' \<and> (\<exists>r \<in> set rs'. 1 < r_score r))"
proof (intro conjI impI ballI)
  fix r
  assume ok: "scores_in_unit_interval db"
    and h: "get_recommendations db names conditions age gender severity = Inr rs"
    and r: "r \<in> set rs"
  from get_recommendations_Inr [OF h] r obtain scored where
    sm: "score_medicines db names conditions age gender severity
           (search_medicines_by_symptoms db names) = Inr scored"
    and rs: "rs = take 10 (sort_key (\<lambda>x. - r_score x) scored)"
    by auto
  from r rs have "r \<in> set scored" by (auto dest: in_set_takeD)
  from score_medicines_score [OF sm this] obtain m where
    "calculate_medicine_score db m names conditions age gender severity = Inr (r_score r)" ..
  from calculate_medicine_score_le [OF ok this] show "r_score r \<le> 1.2" .
next
  show "scores_in_unit_interval test_db" by (rule test_db_scores_ok)
next
  show "\<exists>rs'. get_recommendations test_db [''Fever''] (Some []) (Some 30) (Some ''male'')
              ''severe'' = Inr rs' \<and> (\<exists>r \<in> set rs'. 1 < r_score r)"
    using test_db_fever_severe by simp
qed

text \<open>
  The bound at the test data with severity "severe": the one entry returned has the total
  score 132/125.
\<close>

theorem total_score_at_most_six_fifths_witness:
  "scores_in_unit_interval test_db
   \<and> get_recommendations test_db [''Fever''] (Some []) (Some 30) (Some ''male'') ''severe'' =
       Inr [\<lparr>r_medicine = medicine1, r_score = 132/125, r_effectiveness = 4/5,
             r_safety_warnings = []\<rparr>]
   \<and> r_score \<lparr>r_medicine = medicine1, r_score = 132/125, r_effectiveness = 4/5,
             r_safety_warnings = []\<rparr> \<le> 1.2"
  using total_score_at_most_six_fifths
    [of test_db "[''Fever'']" "Some []" "Some 30" "Some ''male''" "''severe''"
        "[\<lparr>r_medicine = medicine1, r_score = 132/125, r_effectiveness = 4/5,
           r_safety_warnings = []\<rparr>]"]
    test_db_fever_severe test_db_scores_ok
  by simp

text \<open>
  Claim C2 says that every call of the engine returns a list and none raises. The code
  does otherwise at this input: the first medicine treats fever and is contraindicated in
  pregnancy, and a request for fever by a pregnant patient ends in \<open>NameError\<close>, since
  the module never imports \<open>and_\<close>.
\<close>

theorem recommend_raises_on_contraindication:
  "get_recommendations contraindicated_db [''Fever''] (Some [''Pregnancy'']) (Some 25)
     (Some ''female'') ''moderate'' = Inl (NameError ''and_'')"
  by code_simp

text \<open>
  Claim C3 says that the safety score subtracts a penalty for each resolved condition
  with a contraindication edge. The code does otherwise at this input: for a medicine with
  a severe edge to the resolved condition the call raises \<open>NameError\<close> before any
  penalty is subtracted, where the claim gives the score 0.
\<close>

theorem safety_score_raises_on_contraindication:
  "calculate_safety_score contraindicated_db medicine1 (Some [''Pregnancy'']) None =
     Inl (NameError ''and_'')"
  by code_simp

text \<open>
  Claim C6 says that the gender is "male" when a male cue appears as a word, and else
  "female" when a female cue appears as a word. The code does otherwise at this input:
  the text has the word "woman" and no male cue as a word, and the gender found is "male",
  since the code looks for "man" anywhere in the text.
\<close>

theorem gender_of_woman_is_male:
  "extract_patient_info test_db ''I am a woman'' =
     \<lparr>pi_age = None, pi_gender = Some ''male'', pi_conditions = None\<rparr>"
  by code_simp

text \<open>
  Claim C7 says that every age below 12, the age 0 included, costs a medicine without
  pediatric guidance 0.3. The code does otherwise at age 0: the score of such a medicine
  stays 1, while at age 1 it is 0.7.
\<close>

theorem age_zero_not_pediatric:
  "pediatric_use medicine1 = None
   \<and> calculate_safety_score test_db medicine1 None (Some 0) = Inr 1
   \<and> calculate_safety_score test_db medicine1 None (Some 1) = Inr (7/10)"
  by code_simp

subsection \<open>Name resolution and candidate search\<close>

lemma lower_char_percent [simp]: "lower_char c = CHR ''%'' \<longleftrightarrow> c = CHR ''%''"
proof
  assume h: "lower_char c = CHR ''%''"
  show "c = CHR ''%''"
  proof (cases "65 \<le> (of_char c :: nat) \<and> (of_char c :: nat) \<le> 90")
    case False
    with h show ?thesis by (simp add: lower_char_def Let_def)
  next
    case True
    with h have "(char_of (of_char c + 32 :: nat) :: char) = CHR ''%''"
      by (simp add: lower_char_def Let_def)
    then have "(of_char (char_of (of_char c + 32 :: nat) :: char) :: nat) = of_char CHR ''%''"
      by simp
    with True show ?thesis by simp
  qed
next
  assume "c = CHR ''%''"
  then show "lower_char c = CHR ''%''" by (simp add: lower_char_def)
qed

lemma lower_char_underscore [simp]: "lower_char c = CHR ''_'' \<longleftrightarrow> c = CHR ''_''"
proof
  assume h: "lower_char c = CHR ''_''"
  show "c = CHR ''_''"
  proof (cases "65 \<le> (of_char c :: nat) \<and> (of_char c :: nat) \<le> 90")
    case False
    with h show ?thesis by (simp add: lower_char_def Let_def)
  next
    case True
    with h have "(char_of (of_char c + 32 :: nat) :: char) = CHR ''_''"
      by (simp add: lower_char_def Let_def)
    then have "(of_char (char_of (of_char c + 32 :: nat) :: char) :: nat) = of_char CHR ''_''"
      by simp
    with True show ?thesis by simp
  qed
next
  assume "c = CHR ''_''"
  then show "lower_char c = CHR ''_''" by (simp add: lower_char_def)
qed

lemma percent_in_lower: "CHR ''%'' \<in> set (lower s) \<longleftrightarrow> CHR ''%'' \<in> set s"
proof (induction s)
  case Nil
  show ?case by (simp add: lower_def)
next
  case (Cons c cs)
  have "CHR ''%'' = lower_char c \<longleftrightarrow> CHR ''%'' = c"
    by (metis lower_char_percent)
  with Cons show ?case by (simp add: lower_def)
qed

lemma underscore_in_lower: "CHR ''_'' \<in> set (lower s) \<longleftrightarrow> CHR ''_'' \<in> set s"
proof (induction s)
  case Nil
  show ?case by (simp add: lower_def)
next
  case (Cons c cs)
  have "CHR ''_'' = lower_char c \<longleftrightarrow> CHR ''_'' = c"
    by (metis lower_char_underscore)
  with Cons show ?case by (simp add: lower_def)
qed

lemma has_wildcard_lower: "has_wildcard (lower name) = has_wildcard name"
  by (simp add: has_wildcard_def percent_in_lower underscore_in_lower)

lemma like_match_percent_only [simp]: "like_match ''%'' t"
  by (induction t) simp_all

lemma like_match_leading_percent:
  "like_match (CHR ''%'' # ps) t \<longleftrightarrow> (\<exists>k \<le> length t. like_match ps (drop k t))"
proof (induction t)
  case Nil
  show ?case by simp
next
  case (Cons c cs)
  have "(\<exists>k \<le> length (c # cs). like_match ps (drop k (c # cs)))
        \<longleftrightarrow> like_match ps (c # cs) \<or> (\<exists>k \<le> length cs. like_match ps (drop k cs))"
  proof
    assume "\<exists>k \<le> length (c # cs). like_match ps (drop k (c # cs))"
    then obtain k where k: "k \<le> length (c # cs)" "like_match ps (drop k (c # cs))" by blast
    show "like_match ps (c # cs) \<or> (\<exists>k \<le> length cs. like_match ps (drop k cs))"
    proof (cases k)
      case 0
      with k show ?thesis by simp
    next
      case (Suc j)
      with k have "j \<le> length cs" "like_match ps (drop j cs)" by simp_all
      then show ?thesis by blast
    qed
  next
    assume "like_match ps (c # cs) \<or> (\<exists>k \<le> length cs. like_match ps (drop k cs))"
    then show "\<exists>k \<le> length (c # cs). like_match ps (drop k (c # cs))"
    proof
      assume "like_match ps (c # cs)"
      then have "0 \<le> length (c # cs) \<and> like_match ps (drop 0 (c # cs))" by simp
      then show ?thesis by blast
    next
      assume "\<exists>k \<le> length cs. like_match ps (drop k cs)"
      then obtain k where "k \<le> length cs" "like_match ps (drop k cs)" by blast
      then have "Suc k \<le> length (c # cs) \<and> like_match ps (drop (Suc k) (c # cs))" by simp
      then show ?thesis by blast
    qed
  qed
  with Cons show ?case by simp
qed

lemma like_match_literal_prefix:
  "\<not> has_wildcard p \<Longrightarrow> like_match (p @ ''%'') t \<longleftrightarrow> starts_with t p"
proof (induction p arbitrary: t)
  case Nil
  show ?case by (simp add: starts_with_def)
next
  case (Cons a p)
  then have a: "a \<noteq> CHR ''%''" "a \<noteq> CHR ''_''" and p: "\<not> has_wildcard p"
    by (auto simp: has_wildcard_def)
  show ?case
  proof (cases t)
    case Nil
    with a show ?thesis by (simp add: starts_with_def)
  next
    case (Cons c cs)
    with a Cons.IH [OF p, of cs] show ?thesis
      by (auto simp: starts_with_def)
  qed
qed

lemma str_contains_iff:
  "str_contains sub t \<longleftrightarrow> (\<exists>k \<le> length t. starts_with (drop k t) sub)"
proof (induction t)
  case Nil
  show ?case by (auto simp: starts_with_def)
next
  case (Cons c cs)
  have "(\<exists>k \<le> length (c # cs). starts_with (drop k (c # cs)) sub)
        \<longleftrightarrow> starts_with (c # cs) sub \<or> (\<exists>k \<le> length cs. starts_with (drop k cs) sub)"
  proof
    assume "\<exists>k \<le> length (c # cs). starts_with (drop k (c # cs)) sub"
    then obtain k where k: "k \<le> length (c # cs)" "starts_with (drop k (c # cs)) sub" by blast
    show "starts_with (c # cs) sub \<or> (\<exists>k \<le> length cs. starts_with (drop k cs) sub)"
    proof (cases k)
      case 0
      with k show ?thesis by simp
    next
      case (Suc j)
      with k have "j \<le> length cs" "starts_with (drop j cs) sub" by simp_all
      then show ?thesis by blast
    qed
  next
    assume "starts_with (c # cs) sub \<or> (\<exists>k \<le> length cs. starts_with (drop k cs) sub)"
    then show "\<exists>k \<le> length (c # cs). starts_with (drop k (c # cs)) sub"
    proof
      assume "starts_with (c # cs) sub"
      then have "0 \<le> length (c # cs) \<and> starts_with (drop 0 (c # cs)) sub" by simp
      then show ?thesis by blast
    next
      assume "\<exists>k \<le> length cs. starts_with (drop k cs) sub"
      then obtain k where "k \<le> length cs" "starts_with (drop k cs) sub" by blast
      then have "Suc k \<le> length (c # cs) \<and> starts_with (drop (Suc k) (c # cs)) sub" by simp
      then show ?thesis by blast
    qed
  qed
  with Cons show ?case by simp
qed

lemma ilike_is_substring:
  assumes "\<not> has_wildcard name"
  shows "ilike stored (name_pattern name) = name_matches name stored"
proof -
  have nw: "\<not> has_wildcard (lower name)" using assms by (simp add: has_wildcard_lower)
  have "lower (name_pattern name) = CHR ''%'' # (lower name @ ''%'')"
    by (simp add: name_pattern_def lower_def)
  then have "ilike stored (name_pattern name)
      \<longleftrightarrow> (\<exists>k \<le> length (lower stored). like_match (lower name @ ''%'') (drop k (lower stored)))"
    by (simp add: ilike_def like_match_leading_percent)
  also have "\<dots> \<longleftrightarrow> (\<exists>k \<le> length (lower stored). starts_with (drop k (lower stored)) (lower name))"
    by (simp add: like_match_literal_prefix [OF nw])
  also have "\<dots> \<longleftrightarrow> name_matches name stored"
    by (simp add: name_matches_def str_contains_iff)
  finally show ?thesis .
qed

lemma resolve_symptom_substring:
  "\<not> has_wildcard name \<Longrightarrow> resolve_symptom db name = resolve_by_substring db name"
  by (simp add: resolve_symptom_def resolve_by_substring_def ilike_is_substring)

lemma map_filter_cong_list:
  "(\<And>x. x \<in> set xs \<Longrightarrow> f x = g x) \<Longrightarrow> List.map_filter f xs = List.map_filter g xs"
  by (induction xs) (simp_all add: map_filter_simps split: option.splits)

lemma effectiveness_matches_spec:
  assumes "list_all (\<lambda>n. \<not> has_wildcard n) names"
  shows "get_effectiveness_for_symptoms db m names = effectiveness_spec db m names"
proof -
  have "List.map_filter (resolve_symptom db) names = List.map_filter (resolve_by_substring db) names"
    by (rule map_filter_cong_list) (use assms in \<open>simp add: list_all_iff resolve_symptom_substring\<close>)
  then show ?thesis
    by (simp add: get_effectiveness_mean effectiveness_spec_def mean_effectiveness_def)
qed

text \<open>
  Claim C4, as amended. The effectiveness score is the mean of the stored edge scores
  (0 where no edge exists) over the names that resolve to a stored symptom, a name
  resolving to the first symptom that the pattern \<open>%name%\<close> matches without regard to
  case; unresolved names are skipped. For names with neither \<open>%\<close> nor \<open>_\<close> this is
  the mean over the first case-insensitive substring matches. The score lies between 0
  and 1 when every stored score does, and it is 0 when the list is empty or no name
  resolves.
\<close>

theorem effectiveness_is_mean_of_resolved:
  "get_effectiveness_for_symptoms db m names = mean_effectiveness (resolve_symptom db) db m names
   \<and> (list_all (\<lambda>n. \<not> has_wildcard n) names \<longrightarrow>
        get_effectiveness_for_symptoms db m names = effectiveness_spec db m names)
   \<and> (scores_in_unit_interval db \<longrightarrow>
        0 \<le> get_effectiveness_for_symptoms db m names
        \<and> get_effectiveness_for_symptoms db m names \<le> 1)
   \<and> (names = [] \<or> List.map_filter (resolve_symptom db) names = [] \<longrightarrow>
        get_effectiveness_for_symptoms db m names = 0)"
proof (intro conjI impI)
  show "get_effectiveness_for_symptoms db m names = mean_effectiveness (resolve_symptom db) db m names"
    by (rule get_effectiveness_mean)
next
  assume "list_all (\<lambda>n. \<not> has_wildcard n) names"
  then show "get_effectiveness_for_symptoms db m names = effectiveness_spec db m names"
    by (rule effectiveness_matches_spec)
next
  assume ok: "scores_in_unit_interval db"
  from mean_effectiveness_range [OF ok, of "resolve_symptom db" m names]
  show "0 \<le> get_effectiveness_for_symptoms db m names"
    "get_effectiveness_for_symptoms db m names \<le> 1"
    by (simp_all add: get_effectiveness_mean)
next
  assume "names = [] \<or> List.map_filter (resolve_symptom db) names = []"
  then show "get_effectiveness_for_symptoms db m names = 0"
    by (auto simp: get_effectiveness_mean mean_effectiveness_def map_filter_simps)
qed

text \<open>
  The amended claim at the test data: "fev" resolves to Fever and "cough" to nothing.
\<close>

theorem effectiveness_is_mean_of_resolved_witness:
  "list_all (\<lambda>n. \<not> has_wildcard n) [''fev'', ''cough'']
   \<and> scores_in_unit_interval test_db
   \<and> get_effectiveness_for_symptoms test_db medicine1 [''fev'', ''cough''] = 4/5
   \<and> effectiveness_spec test_db medicine1 [''fev'', ''cough''] = 4/5
   \<and> List.map_filter (resolve_symptom test_db) [''cough''] = []
   \<and> get_effectiveness_for_symptoms test_db medicine1 [''cough''] = 0"
proof -
  have a: "list_all (\<lambda>n. \<not> has_wildcard n) [''fev'', ''cough'']" by code_simp
  have b: "scores_in_unit_interval test_db"
    by (simp add: scores_in_unit_interval_def test_db_def)
  have c: "get_effectiveness_for_symptoms test_db medicine1 [''fev'', ''cough''] = 4/5" by code_simp
  have d: "List.map_filter (resolve_symptom test_db) [''cough''] = []" by code_simp
  from effectiveness_is_mean_of_resolved [of test_db medicine1 "[''fev'', ''cough'']"]
    effectiveness_is_mean_of_resolved [of test_db medicine1 "[''cough'']"] a b c d
  show ?thesis by simp
qed

text \<open>
  Claim C4 as stated fails for the name "_": no stored name contains an underscore, so
  under substring containment nothing resolves and the score would be 0, while the pattern
  \<open>%_%\<close> matches "Fever" and the code returns that edge's score.
\<close>

theorem effectiveness_wildcard_counterexample:
  "get_effectiveness_for_symptoms test_db medicine1 [''_''] = 4/5
   \<and> effectiveness_spec test_db medicine1 [''_''] = 0"
  by code_simp

lemma search_medicines_as_filter:
  "search_medicines_by_symptoms db names =
     filter (\<lambda>m. m_id m \<in> set (map ms_medicine_id
               (filter (\<lambda>ms. ms_symptom_id ms
                                \<in> set (map s_id (filter (\<lambda>s. s_name s \<in> set names) (symptoms db)))
                              \<and> contraindicated ms = False)
                       (medicine_symptoms db))))
            (medicines db)"
proof -
  define syms where "syms = filter (\<lambda>s. s_name s \<in> set names) (symptoms db)"
  define edges where
    "edges = filter (\<lambda>ms. ms_symptom_id ms \<in> set (map s_id syms) \<and> contraindicated ms = False)
               (medicine_symptoms db)"
  have body: "search_medicines_by_symptoms db names =
      (if names = [] then []
       else if syms = [] then []
       else if map ms_medicine_id edges = [] then []
       else filter (\<lambda>m. m_id m \<in> set (map ms_medicine_id edges)) (medicines db))"
    unfolding search_medicines_by_symptoms_def Let_def syms_def edges_def by (rule refl)
  have a: "names = [] \<Longrightarrow> syms = []" by (simp add: syms_def)
  have b: "syms = [] \<Longrightarrow> edges = []" by (simp add: edges_def)
  have "search_medicines_by_symptoms db names =
      filter (\<lambda>m. m_id m \<in> set (map ms_medicine_id edges)) (medicines db)"
  proof (cases "edges = []")
    case True
    then show ?thesis by (simp add: body)
  next
    case False
    with a b have "names \<noteq> []" "syms \<noteq> []" by blast+
    with False show ?thesis by (simp add: body)
  qed
  then show ?thesis unfolding syms_def edges_def .
qed

text \<open>
  What the candidate search computes: the medicines with a non-contraindicated edge to a
  stored symptom whose name is equal to one of the requested names, character for
  character.
\<close>

lemma search_medicines_exact_names:
  "set (search_medicines_by_symptoms db names) =
     {m \<in> set (medicines db).
        \<exists>ms \<in> set (medicine_symptoms db).
          ms_medicine_id ms = m_id m \<and> \<not> contraindicated ms
          \<and> (\<exists>s \<in> set (symptoms db). s_id s = ms_symptom_id ms \<and> s_name s \<in> set names)}"
  unfolding search_medicines_as_filter by force

lemma search_medicines_test_request:
  "search_medicines_by_symptoms test_db [''Fever''] = [medicine1]"
  by code_simp

text \<open>
  Claim C1 says that the candidate search returns the medicines with a non-contraindicated
  edge to a stored symptom whose name contains a requested name, without regard to case.
  The code does otherwise at the name "fever": it is contained in the stored name Fever,
  whose medicine is the candidate, and the search returns no medicine. The effectiveness
  scorer, given the same name in the same call of the engine, resolves it to Fever and
  scores that medicine 4/5.
\<close>

theorem search_misses_case_insensitive_name:
  "search_medicines_by_symptoms test_db [''fever''] = []
   \<and> candidates_spec test_db [''fever''] = [medicine1]
   \<and> get_effectiveness_for_symptoms test_db medicine1 [''fever''] = 4/5"
  by code_simp

end
